theory Spec2Isabelle
  imports
    Complex_Main
    "HOL-Library.Char_ord"
    "HOL-Library.List_Lexorder"
    "HOL-Library.Sublist"
begin

section \<open>Laundromat Finder: the search pipeline of \<^verbatim>\<open>main.py\<close>\<close>

text \<open>
  The program is a FastAPI endpoint \<^verbatim>\<open>/api/search\<close> that geocodes a free-text query
  (Nominatim), asks Overpass for laundries around the resulting point, normalises the
  elements of the answer, sorts them by name and truncates the list.

  Every value the program handles after \<^verbatim>\<open>r.json()\<close> is a decoded JSON document, so the
  model works on JSON values and gives each Python operation its behaviour on every shape
  of value, exceptions included. Exceptions are values of type \<open>error\<close>; a function that can
  raise returns \<open>error + 'a\<close> with \<open>Inl\<close> for the exception.
\<close>

subsection \<open>JSON values and Python exceptions\<close>

text \<open>
  \<^verbatim>\<open>json.loads\<close> yields \<^verbatim>\<open>None\<close>, \<^verbatim>\<open>bool\<close>, \<^verbatim>\<open>int\<close>, \<^verbatim>\<open>float\<close>, \<^verbatim>\<open>str\<close>, \<^verbatim>\<open>list\<close> and \<^verbatim>\<open>dict\<close>.
  A dict is an association list read with \<open>map_of\<close>. A float is modelled by the real
  number it stands for: rounding to binary64, infinities and NaN are not modelled. A \<^verbatim>\<open>str\<close>
  is a \<open>string\<close> of bytes (UTF-8), whose lexicographic order is the order of Python's \<^verbatim>\<open><\<close>
  on the decoded text.
\<close>

datatype json =
    JNull
  | JBool bool
  | JInt int
  | JFloat real
  | JStr string
  | JArr "json list"
  | JObj "(string \<times> json) list"

text \<open>
  The exceptions the program can raise. \<open>HTTPException\<close> carries the status code and the
  detail text. \<open>RequestValidationError\<close> is FastAPI's rejection of a parameter outside the
  bounds declared with \<^verbatim>\<open>Query(..., ge=, le=)\<close>. \<open>Unmodelled\<close> is not a Python exception: it marks
  the few inputs on which the model does not say what Python does (the text of a float, of a
  list or of a dict, the order of two lists, a numeric string outside plain decimal notation).
\<close>

datatype error =
    HTTPException int string
  | RequestValidationError
  | RequestException
  | JSONDecodeError
  | TypeError
  | ValueError
  | AttributeError
  | KeyError
  | IndexError
  | OverflowError
  | Unmodelled

definition bind_res :: "error + 'a \<Rightarrow> ('a \<Rightarrow> error + 'b) \<Rightarrow> error + 'b" where
  "bind_res m f = (case m of Inl e \<Rightarrow> Inl e | Inr x \<Rightarrow> f x)"

text \<open>Python truth value of a JSON value (\<^verbatim>\<open>if x\<close>, \<^verbatim>\<open>not x\<close>, \<^verbatim>\<open>x or y\<close>).\<close>

fun truthy :: "json \<Rightarrow> bool" where
  "truthy JNull = False"
| "truthy (JBool b) = b"
| "truthy (JInt i) = (i \<noteq> 0)"
| "truthy (JFloat r) = (r \<noteq> 0)"
| "truthy (JStr s) = (s \<noteq> [])"
| "truthy (JArr xs) = (xs \<noteq> [])"
| "truthy (JObj kvs) = (kvs \<noteq> [])"

definition py_or :: "json \<Rightarrow> json \<Rightarrow> json" where
  "py_or x y = (if truthy x then x else y)"

text \<open>
  \<^verbatim>\<open>x.get(k)\<close> and \<^verbatim>\<open>x.get(k, d)\<close>: only a dict has the method; a missing key gives \<^verbatim>\<open>None\<close>
  (or the default), a key present with value \<^verbatim>\<open>null\<close> gives \<^verbatim>\<open>None\<close> in both forms.
\<close>

definition py_get_default :: "json \<Rightarrow> string \<Rightarrow> json \<Rightarrow> error + json" where
  "py_get_default x k d =
     (case x of
        JObj kvs \<Rightarrow> Inr (case map_of kvs k of None \<Rightarrow> d | Some v \<Rightarrow> v)
      | _ \<Rightarrow> Inl AttributeError)"

definition py_get :: "json \<Rightarrow> string \<Rightarrow> error + json" where
  "py_get x k = py_get_default x k JNull"

text \<open>
  \<^verbatim>\<open>data[0]\<close>: the first item of a list, the first character of a str; a dict decoded from
  JSON has only str keys, so the key \<^verbatim>\<open>0\<close> is missing; other values are not subscriptable.
\<close>

fun py_index0 :: "json \<Rightarrow> error + json" where
  "py_index0 (JArr (x # xs)) = Inr x"
| "py_index0 (JArr []) = Inl IndexError"
| "py_index0 (JStr (c # cs)) = Inr (JStr [c])"
| "py_index0 (JStr []) = Inl IndexError"
| "py_index0 (JObj kvs) = Inl KeyError"
| "py_index0 v = Inl TypeError"

text \<open>\<^verbatim>\<open>for el in v\<close>: a list gives its items, a str its characters, a dict its keys.\<close>

fun py_iter :: "json \<Rightarrow> error + json list" where
  "py_iter (JArr xs) = Inr xs"
| "py_iter (JStr s) = Inr (map (\<lambda>c. JStr [c]) s)"
| "py_iter (JObj kvs) = Inr (map JStr (remdups (map fst kvs)))"
| "py_iter v = Inl TypeError"

subsection \<open>Text of values and numbers from text\<close>

definition digit_char :: "nat \<Rightarrow> char" where
  "digit_char d = ''0123456789'' ! d"

text \<open>The decimal digits of a natural number, as \<^verbatim>\<open>str\<close> prints an int.\<close>

fun show_nat :: "nat \<Rightarrow> string" where
  "show_nat n =
     (if n < 10 then [digit_char n] else show_nat (n div 10) @ [digit_char (n mod 10)])"

declare show_nat.simps [simp del]

definition show_int :: "int \<Rightarrow> string" where
  "show_int i = (if i < 0 then CHR ''-'' # show_nat (nat (- i)) else show_nat (nat i))"

text \<open>
  \<^verbatim>\<open>str(v)\<close>, as an f-string applies it to an interpolated value. The text of a float
  (shortest round-trip \<^verbatim>\<open>repr\<close>) and of containers is not modelled.
\<close>

fun py_str :: "json \<Rightarrow> error + string" where
  "py_str JNull = Inr ''None''"
| "py_str (JBool b) = Inr (if b then ''True'' else ''False'')"
| "py_str (JInt i) = Inr (show_int i)"
| "py_str (JStr s) = Inr s"
| "py_str v = Inl Unmodelled"

definition is_digit :: "char \<Rightarrow> bool" where
  "is_digit c = (c \<in> set ''0123456789'')"

definition digits_val :: "string \<Rightarrow> nat" where
  "digits_val ds = foldl (\<lambda>acc c. 10 * acc + (of_char c - 48)) 0 ds"

text \<open>
  \<^verbatim>\<open>float(s)\<close> on a str. On a string made only of digits, \<^verbatim>\<open>.\<close>, \<^verbatim>\<open>+\<close> and \<^verbatim>\<open>-\<close> Python
  accepts exactly an optional sign followed by digits with at most one point and at least
  one digit, and raises \<^verbatim>\<open>ValueError\<close> otherwise. Strings with other characters (exponents,
  blanks, underscores, \<^verbatim>\<open>inf\<close>, \<^verbatim>\<open>nan\<close>) are not modelled.
\<close>

definition py_float_str :: "string \<Rightarrow> error + real" where
  "py_float_str s =
     (if \<not> list_all (\<lambda>c. c \<in> set ''0123456789.+-'') s then Inl Unmodelled
      else
        let sgn = (case s of c # cs \<Rightarrow> if c = CHR ''-'' then - 1 else 1 | [] \<Rightarrow> (1::real));
            unsigned = (case s of c # cs \<Rightarrow> if c = CHR ''-'' \<or> c = CHR ''+'' then cs else s | [] \<Rightarrow> []);
            ip = takeWhile is_digit unsigned;
            rest = dropWhile is_digit unsigned
        in case rest of
             [] \<Rightarrow> if ip = [] then Inl ValueError else Inr (sgn * real (digits_val ip))
           | c # fp \<Rightarrow>
               if c = CHR ''.'' \<and> list_all is_digit fp \<and> (ip \<noteq> [] \<or> fp \<noteq> [])
               then Inr (sgn * (real (digits_val ip) + real (digits_val fp) / 10 ^ length fp))
               else Inl ValueError)"

text \<open>
  \<^verbatim>\<open>float(v)\<close>: \<^verbatim>\<open>None\<close>, lists and dicts raise \<^verbatim>\<open>TypeError\<close>; an int too large for a
  binary64 raises \<^verbatim>\<open>OverflowError\<close>.
\<close>

fun py_float :: "json \<Rightarrow> error + real" where
  "py_float JNull = Inl TypeError"
| "py_float (JBool b) = Inr (if b then 1 else 0)"
| "py_float (JInt i) =
     (if \<bar>i\<bar> \<ge> 2 ^ 1024 - 2 ^ 970 then Inl OverflowError else Inr (real_of_int i))"
| "py_float (JFloat r) = Inr r"
| "py_float (JStr s) = py_float_str s"
| "py_float (JArr xs) = Inl TypeError"
| "py_float (JObj kvs) = Inl TypeError"

subsection \<open>The upstream services\<close>

text \<open>
  A call of \<^verbatim>\<open>requests.get\<close> or \<^verbatim>\<open>requests.post\<close> either raises (time-out, no
  connection) or returns a response with a status code and a body; \<^verbatim>\<open>r.json()\<close> raises when
  the body is not JSON (\<open>body = None\<close>).
\<close>

record http_response =
  status_code :: int
  body :: "json option"

type_synonym upstream = "error + http_response"

subsection \<open>\<^verbatim>\<open>geocode_location\<close>\<close>

record geo_center =
  c_lat :: real
  c_lon :: real
  c_display_name :: json

text \<open>
  The argument is what \<^verbatim>\<open>requests.get\<close> did for the query. \<open>Inr None\<close> is the Python
  \<^verbatim>\<open>return None\<close>. The dict display evaluates \<^verbatim>\<open>float(item.get("lat"))\<close> first, then the
  longitude, then the label.
\<close>

definition geocode_location :: "upstream \<Rightarrow> error + geo_center option" where
  "geocode_location up =
     bind_res up (\<lambda>r.
       if status_code r \<noteq> 200 then Inr None
       else case body r of
         None \<Rightarrow> Inl JSONDecodeError
       | Some data \<Rightarrow>
           if \<not> truthy data then Inr None
           else
             bind_res (py_index0 data) (\<lambda>item.
             bind_res (py_get item ''lat'') (\<lambda>la.
             bind_res (py_float la) (\<lambda>lat.
             bind_res (py_get item ''lon'') (\<lambda>lo.
             bind_res (py_float lo) (\<lambda>lon.
             bind_res (py_get item ''display_name'') (\<lambda>dn.
               Inr (Some \<lparr>c_lat = lat, c_lon = lon, c_display_name = dn\<rparr>))))))))"

subsection \<open>\<^verbatim>\<open>build_address\<close>\<close>

text \<open>\<^verbatim>\<open>sep.join(items)\<close> raises \<^verbatim>\<open>TypeError\<close> unless every item is a str.\<close>

fun join_strs :: "string \<Rightarrow> string list \<Rightarrow> string" where
  "join_strs sep [] = []"
| "join_strs sep [x] = x"
| "join_strs sep (x # y # ys) = x @ sep @ join_strs sep (y # ys)"

fun strs_of :: "json list \<Rightarrow> error + string list" where
  "strs_of [] = Inr []"
| "strs_of (JStr s # vs) = bind_res (strs_of vs) (\<lambda>ss. Inr (s # ss))"
| "strs_of (v # vs) = Inl TypeError"

definition py_join :: "string \<Rightarrow> json list \<Rightarrow> error + string" where
  "py_join sep vs = bind_res (strs_of vs) (\<lambda>ss. Inr (join_strs sep ss))"

text \<open>\<^verbatim>\<open>v + ' '\<close>: only a str can be concatenated with a str.\<close>

fun py_add_str :: "json \<Rightarrow> string \<Rightarrow> error + string" where
  "py_add_str (JStr s) t = Inr (s @ t)"
| "py_add_str v t = Inl TypeError"

text \<open>\<^verbatim>\<open>tags.get(k1) or tags.get(k2) or ...\<close>, evaluated from the left.\<close>

fun get_first :: "json \<Rightarrow> string list \<Rightarrow> error + json" where
  "get_first tags [] = Inr JNull"
| "get_first tags [k] = py_get tags k"
| "get_first tags (k # ks) =
     bind_res (py_get tags k) (\<lambda>v. if truthy v then Inr v else get_first tags ks)"

text \<open>The result is \<open>JNull\<close> for Python's \<^verbatim>\<open>None\<close> and \<open>JStr\<close> for a str.\<close>

definition build_address :: "json \<Rightarrow> error + json" where
  "build_address tags =
     bind_res (py_get tags ''addr:housenumber'') (\<lambda>num.
     bind_res (py_get tags ''addr:street'') (\<lambda>street.
     bind_res
       (if truthy street
        then bind_res (if truthy num then py_add_str num '' '' else Inr []) (\<lambda>pre.
             bind_res (py_str street) (\<lambda>st. Inr [JStr (pre @ st)]))
        else Inr []) (\<lambda>parts1.
     bind_res (get_first tags [''addr:city'', ''addr:town'', ''addr:village'']) (\<lambda>city.
     bind_res (get_first tags [''addr:state'', ''addr:province'']) (\<lambda>state.
     bind_res (py_get tags ''addr:postcode'') (\<lambda>postcode.
     bind_res (py_join '', '' (filter truthy [city, state])) (\<lambda>locality.
       let parts2 = (if locality \<noteq> [] then parts1 @ [JStr locality] else parts1);
           parts3 = (if truthy postcode then parts2 @ [postcode] else parts2)
       in if parts3 \<noteq> []
          then bind_res (py_join '', '' parts3) (\<lambda>a. Inr (JStr a))
          else Inr JNull)))))))"

subsection \<open>Normalising one element\<close>

record place =
  r_id :: string
  r_name :: json
  r_address :: json
  r_lat :: json
  r_lon :: json
  r_distance_km :: json
  r_opening_hours :: json
  r_phone :: json
  r_website :: json
  r_osm_url :: string

text \<open>
  The body of the \<^verbatim>\<open>for el in elements\<close> loop. \<open>Inr None\<close> is the \<^verbatim>\<open>continue\<close> of an
  element without coordinates, \<open>Inr (Some p)\<close> the dict appended to \<^verbatim>\<open>results\<close>.
\<close>

definition normalize :: "json \<Rightarrow> error + place option" where
  "normalize el =
     bind_res (py_get_default el ''tags'' (JObj [])) (\<lambda>tags.
     bind_res (py_get tags ''name'') (\<lambda>n.
     let name = py_or n (JStr ''Laundromat'') in
     bind_res (py_get el ''type'') (\<lambda>ty.
     bind_res
       (if ty = JStr ''node''
        then bind_res (py_get el ''lat'') (\<lambda>la.
             bind_res (py_get el ''lon'') (\<lambda>lo. Inr (la, lo)))
        else bind_res (py_get el ''center'') (\<lambda>c.
             let center_obj = py_or c (JObj []) in
             bind_res (py_get center_obj ''lat'') (\<lambda>la.
             bind_res (py_get center_obj ''lon'') (\<lambda>lo. Inr (la, lo))))) (\<lambda>(la, lo).
     if la = JNull \<or> lo = JNull then Inr None
     else
       bind_res (build_address tags) (\<lambda>built.
       bind_res (if truthy built then Inr built else py_get tags ''addr:full'') (\<lambda>addr.
       bind_res (py_str ty) (\<lambda>ty_text.
       bind_res (py_get el ''id'') (\<lambda>ident.
       bind_res (py_str ident) (\<lambda>id_text.
       bind_res (py_get tags ''opening_hours'') (\<lambda>hours.
       bind_res (get_first tags [''phone'', ''contact:phone'']) (\<lambda>phone.
       bind_res (get_first tags [''website'', ''contact:website'']) (\<lambda>website.
         Inr (Some \<lparr>
           r_id = ty_text @ ''/'' @ id_text,
           r_name = name,
           r_address = addr,
           r_lat = la,
           r_lon = lo,
           r_distance_km = JNull,
           r_opening_hours = hours,
           r_phone = phone,
           r_website = website,
           r_osm_url = ''https://www.openstreetmap.org/'' @ ty_text @ ''/'' @ id_text
         \<rparr>)))))))))))))"

text \<open>The loop: the first element that raises ends the request.\<close>

fun normalize_all :: "json list \<Rightarrow> error + place list" where
  "normalize_all [] = Inr []"
| "normalize_all (el # els) =
     bind_res (normalize el) (\<lambda>r.
     bind_res (normalize_all els) (\<lambda>rs.
       Inr (case r of None \<Rightarrow> rs | Some p \<Rightarrow> p # rs)))"


subsection \<open>Sorting by name and truncating\<close>

text \<open>
  Python's \<^verbatim>\<open><\<close> on two sort keys. Two strs are compared lexicographically, two numbers
  (\<^verbatim>\<open>bool\<close>, \<^verbatim>\<open>int\<close>, \<^verbatim>\<open>float\<close>) by value; every other pair of different kinds, and two dicts,
  raise \<^verbatim>\<open>TypeError\<close>. The order of two lists depends on their items and is not modelled.
\<close>

fun num_val :: "json \<Rightarrow> real option" where
  "num_val (JBool b) = Some (if b then 1 else 0)"
| "num_val (JInt i) = Some (real_of_int i)"
| "num_val (JFloat r) = Some r"
| "num_val v = None"

fun py_lt :: "json \<Rightarrow> json \<Rightarrow> error + bool" where
  "py_lt (JStr s) (JStr t) = Inr (s < t)"
| "py_lt (JArr xs) (JArr ys) = Inl Unmodelled"
| "py_lt a b =
     (case num_val a of
        None \<Rightarrow> Inl TypeError
      | Some x \<Rightarrow> (case num_val b of None \<Rightarrow> Inl TypeError | Some y \<Rightarrow> Inr (x < y)))"

text \<open>The key function \<^verbatim>\<open>lambda x: (x["name"] or "zzzz")\<close>.\<close>

definition sort_key_of :: "place \<Rightarrow> json" where
  "sort_key_of x = py_or (r_name x) (JStr ''zzzz'')"

text \<open>
  \<^verbatim>\<open>sorted(results, key=...)\<close> is stable and uses only \<^verbatim>\<open><\<close> on the keys; it raises when a
  comparison raises. The model inserts each item in front of the already sorted items that
  follow it, behind those with a strictly smaller key. On keys that \<^verbatim>\<open><\<close> orders totally
  every stable sort returns this list; with two or more keys that are not all strs or all
  numbers some comparison of every sorting procedure raises.
\<close>

fun py_insort :: "place \<Rightarrow> place list \<Rightarrow> error + place list" where
  "py_insort x [] = Inr [x]"
| "py_insort x (y # ys) =
     bind_res (py_lt (sort_key_of y) (sort_key_of x)) (\<lambda>smaller.
       if smaller then bind_res (py_insort x ys) (\<lambda>zs. Inr (y # zs))
       else Inr (x # y # ys))"

fun py_sorted :: "place list \<Rightarrow> error + place list" where
  "py_sorted [] = Inr []"
| "py_sorted (x # xs) = bind_res (py_sorted xs) (\<lambda>ys. py_insort x ys)"

text \<open>Two neighbours are in order when Python's \<^verbatim>\<open>key(b) < key(a)\<close> is \<^verbatim>\<open>False\<close>.\<close>

definition in_order :: "place \<Rightarrow> place \<Rightarrow> bool" where
  "in_order a b = (py_lt (sort_key_of b) (sort_key_of a) = Inr False)"

text \<open>The slice \<^verbatim>\<open>xs[:n]\<close>; a negative \<open>n\<close> counts from the end.\<close>

definition py_slice_to :: "int \<Rightarrow> 'a list \<Rightarrow> 'a list" where
  "py_slice_to n xs = (if 0 \<le> n then take (nat n) xs else take (length xs - nat (- n)) xs)"

subsection \<open>The Overpass query\<close>

text \<open>
  The f-string \<^verbatim>\<open>query_template\<close> is kept as its literal text interleaved with the
  interpolated values: \<^verbatim>\<open>radius_m\<close> and \<^verbatim>\<open>max_results\<close> are ints, the two coordinates are
  floats. Python renders an int in decimal and a float with \<^verbatim>\<open>repr\<close>; both texts are
  non-empty and free of blanks.
\<close>

datatype piece = Lit string | IntArg int | FloatArg real

text \<open>\<^verbatim>\<open>int(x)\<close> on a float truncates towards zero.\<close>

definition py_int :: "real \<Rightarrow> int" where
  "py_int x = (if 0 \<le> x then \<lfloor>x\<rfloor> else \<lceil>x\<rceil>)"

definition radius_m_of :: "real \<Rightarrow> int" where
  "radius_m_of radius_km = py_int (radius_km * 1000)"

definition query_template :: "int \<Rightarrow> real \<Rightarrow> real \<Rightarrow> int \<Rightarrow> piece list" where
  \<open>query_template radius_m lat lon max_results =
     [Lit ''\<newline>    [out:json][timeout:25];\<newline>    (\<newline>      node["shop"="laundry"](around:'',
        IntArg radius_m, Lit '','', FloatArg lat, Lit '','', FloatArg lon,
      Lit '');\<newline>      way["shop"="laundry"](around:'',
        IntArg radius_m, Lit '','', FloatArg lat, Lit '','', FloatArg lon,
      Lit '');\<newline>      node["amenity"="laundry"](around:'',
        IntArg radius_m, Lit '','', FloatArg lat, Lit '','', FloatArg lon,
      Lit '');\<newline>      way["amenity"="laundry"](around:'',
        IntArg radius_m, Lit '','', FloatArg lat, Lit '','', FloatArg lon,
      Lit '');\<newline>      node["amenity"="laundrette"](around:'',
        IntArg radius_m, Lit '','', FloatArg lat, Lit '','', FloatArg lon,
      Lit '');\<newline>      way["amenity"="laundrette"](around:'',
        IntArg radius_m, Lit '','', FloatArg lat, Lit '','', FloatArg lon,
      Lit '');\<newline>    );\<newline>    out center tags qt '',
        IntArg max_results,
      Lit '';\<newline>    '']\<close>

text \<open>
  \<^verbatim>\<open>.strip()\<close> removes the blanks at both ends of the rendered text. An interpolated number
  renders without blanks, so only literal text at the two ends is shortened.
\<close>

definition is_space :: "char \<Rightarrow> bool" where
  "is_space c = (c \<in> set [CHR '' '', CHR 0x09, CHR 0x0A, CHR 0x0B, CHR 0x0C, CHR 0x0D,
                           CHR 0x1C, CHR 0x1D, CHR 0x1E, CHR 0x1F])"

fun lstrip_pieces :: "piece list \<Rightarrow> piece list" where
  "lstrip_pieces (Lit s # ps) =
     (case dropWhile is_space s of [] \<Rightarrow> lstrip_pieces ps | c # cs \<Rightarrow> Lit (c # cs) # ps)"
| "lstrip_pieces ps = ps"

fun rev_piece :: "piece \<Rightarrow> piece" where
  "rev_piece (Lit s) = Lit (rev s)"
| "rev_piece p = p"

definition strip_pieces :: "piece list \<Rightarrow> piece list" where
  "strip_pieces ps =
     map rev_piece (rev (lstrip_pieces (map rev_piece (rev (lstrip_pieces ps)))))"

definition overpass_query :: "geo_center \<Rightarrow> real \<Rightarrow> int \<Rightarrow> piece list" where
  "overpass_query center radius_km max_results =
     strip_pieces (query_template (radius_m_of radius_km) (c_lat center) (c_lon center) max_results)"

subsection \<open>The query as the specification describes it\<close>








subsection \<open>\<^verbatim>\<open>search_laundromats\<close>\<close>

text \<open>
  The two services are functions from the request to what the \<^verbatim>\<open>requests\<close> call does. The
  search returns the upstream calls it made, in order, together with its outcome.
\<close>

record world =
  nominatim :: "string \<Rightarrow> upstream"
  overpass :: "piece list \<Rightarrow> upstream"

datatype call = GeocodeCall string | OverpassCall "piece list"

record search_response =
  center :: geo_center
  count :: nat
  results :: "place list"

definition not_found :: error where
  "not_found = HTTPException 404 ''Location not found. Try a different search.''"

definition upstream_error :: error where
  "upstream_error = HTTPException 502 ''Upstream map service error. Please try again later.''"

definition search_laundromats ::
  "world \<Rightarrow> string \<Rightarrow> real \<Rightarrow> int \<Rightarrow> call list \<times> (error + search_response)" where
  "search_laundromats w query radius_km max_results =
     (case geocode_location (nominatim w query) of
        Inl e \<Rightarrow> ([GeocodeCall query], Inl e)
      | Inr None \<Rightarrow> ([GeocodeCall query], Inl not_found)
      | Inr (Some c) \<Rightarrow>
          let q = overpass_query c radius_km max_results in
          ([GeocodeCall query, OverpassCall q],
           bind_res (overpass w q) (\<lambda>r.
             if status_code r \<noteq> 200 then Inl upstream_error
             else case body r of
               None \<Rightarrow> Inl JSONDecodeError
             | Some data \<Rightarrow>
                 bind_res (py_get_default data ''elements'' (JArr [])) (\<lambda>elements.
                 bind_res (py_iter elements) (\<lambda>els.
                 bind_res (normalize_all els) (\<lambda>found.
                 bind_res (py_sorted found) (\<lambda>ordered.
                   let rs = py_slice_to max_results ordered in
                   Inr \<lparr>center = c, count = length rs, results = rs\<rparr>)))))))"

text \<open>
  The route \<^verbatim>\<open>GET /api/search\<close>: FastAPI checks the bounds declared in the signature
  (\<^verbatim>\<open>radius_km\<close> in 0.5..50, \<^verbatim>\<open>max_results\<close> in 1..100) before it calls the function.
\<close>

definition api_search ::
  "world \<Rightarrow> string \<Rightarrow> real \<Rightarrow> int \<Rightarrow> call list \<times> (error + search_response)" where
  "api_search w query radius_km max_results =
     (if 1 / 2 \<le> radius_km \<and> radius_km \<le> 50 \<and> 1 \<le> max_results \<and> max_results \<le> 100
      then search_laundromats w query radius_km max_results
      else ([], Inl RequestValidationError))"

subsection \<open>Raw elements as the specification describes them\<close>

text \<open>
  The data model of the specification gives a raw element a type tag, a numeric id,
  optional direct coordinates, optional centroid coordinates and a mapping of string tags.
  \<open>raw_element\<close> is that record, with every part optional, and \<open>element_json\<close> is the JSON
  object Overpass sends for it: an absent part is an absent key.
\<close>

record raw_element =
  e_type :: "string option"
  e_id :: "int option"
  e_lat :: "real option"
  e_lon :: "real option"
  e_center :: "(real option \<times> real option) option"
  e_tags :: "(string \<times> string) list option"

definition field :: "string \<Rightarrow> json option \<Rightarrow> (string \<times> json) list" where
  "field k v = (case v of None \<Rightarrow> [] | Some x \<Rightarrow> [(k, x)])"

definition tags_json :: "(string \<times> string) list \<Rightarrow> json" where
  "tags_json kvs = JObj (map (\<lambda>(k, v). (k, JStr v)) kvs)"

definition center_json :: "real option \<times> real option \<Rightarrow> json" where
  "center_json c =
     JObj (field ''lat'' (map_option JFloat (fst c)) @ field ''lon'' (map_option JFloat (snd c)))"

definition element_json :: "raw_element \<Rightarrow> json" where
  "element_json e =
     JObj (field ''type'' (map_option JStr (e_type e))
         @ field ''id'' (map_option JInt (e_id e))
         @ field ''lat'' (map_option JFloat (e_lat e))
         @ field ''lon'' (map_option JFloat (e_lon e))
         @ field ''center'' (map_option center_json (e_center e))
         @ field ''tags'' (map_option tags_json (e_tags e)))"

definition tags_of :: "raw_element \<Rightarrow> (string \<times> string) list" where
  "tags_of e = (case e_tags e of None \<Rightarrow> [] | Some kvs \<Rightarrow> kvs)"

text \<open>
  The rules of the specification for the name and the address, on string tags. A tag is
  present when the mapping has it with a non-empty value.
\<close>

definition tag :: "(string \<times> string) list \<Rightarrow> string \<Rightarrow> string option" where
  "tag tags k = (case map_of tags k of None \<Rightarrow> None | Some v \<Rightarrow> if v = [] then None else Some v)"

definition first_tag :: "(string \<times> string) list \<Rightarrow> string list \<Rightarrow> string option" where
  "first_tag tags ks = (case List.map_filter (tag tags) ks of [] \<Rightarrow> None | v # vs \<Rightarrow> Some v)"

definition spec_name :: "(string \<times> string) list \<Rightarrow> string" where
  "spec_name tags = (case tag tags ''name'' of Some v \<Rightarrow> v | None \<Rightarrow> ''Laundromat'')"

definition street_line :: "(string \<times> string) list \<Rightarrow> string list" where
  "street_line tags =
     (case tag tags ''addr:street'' of
        None \<Rightarrow> []
      | Some street \<Rightarrow>
          [(case tag tags ''addr:housenumber'' of None \<Rightarrow> [] | Some num \<Rightarrow> num @ '' '') @ street])"

definition locality_line :: "(string \<times> string) list \<Rightarrow> string list" where
  "locality_line tags =
     (case List.map_filter id
             [first_tag tags [''addr:city'', ''addr:town'', ''addr:village''],
              first_tag tags [''addr:state'', ''addr:province'']] of
        [] \<Rightarrow> []
      | ps \<Rightarrow> [join_strs '', '' ps])"

definition postcode_segment :: "(string \<times> string) list \<Rightarrow> string list" where
  "postcode_segment tags = (case tag tags ''addr:postcode'' of None \<Rightarrow> [] | Some p \<Rightarrow> [p])"

definition segments :: "(string \<times> string) list \<Rightarrow> string list" where
  "segments tags = street_line tags @ locality_line tags @ postcode_segment tags"

definition spec_address :: "(string \<times> string) list \<Rightarrow> json" where
  "spec_address tags =
     (case segments tags of
        [] \<Rightarrow> (case map_of tags ''addr:full'' of None \<Rightarrow> JNull | Some v \<Rightarrow> JStr v)
      | segs \<Rightarrow> JStr (join_strs '', '' segs))"

definition spec_coordinates :: "raw_element \<Rightarrow> real option \<times> real option" where
  "spec_coordinates e =
     (if e_type e = Some ''node'' then (e_lat e, e_lon e)
      else case e_center e of None \<Rightarrow> (None, None) | Some c \<Rightarrow> c)"

text \<open>The other fields of the place built for a raw element with coordinates.\<close>

definition tag_value :: "(string \<times> string) list \<Rightarrow> string \<Rightarrow> json" where
  "tag_value tags k = (case map_of tags k of None \<Rightarrow> JNull | Some v \<Rightarrow> JStr v)"

fun or_tags :: "(string \<times> string) list \<Rightarrow> string list \<Rightarrow> json" where
  "or_tags tags [] = JNull"
| "or_tags tags [k] = tag_value tags k"
| "or_tags tags (k # ks) =
     (if truthy (tag_value tags k) then tag_value tags k else or_tags tags ks)"

definition ident_text :: "raw_element \<Rightarrow> string" where
  "ident_text e =
     (case e_type e of None \<Rightarrow> ''None'' | Some t \<Rightarrow> t) @ ''/''
     @ (case e_id e of None \<Rightarrow> ''None'' | Some i \<Rightarrow> show_int i)"

definition place_for :: "raw_element \<Rightarrow> real \<Rightarrow> real \<Rightarrow> place" where
  "place_for e la lo =
     \<lparr>r_id = ident_text e,
      r_name = JStr (spec_name (tags_of e)),
      r_address = spec_address (tags_of e),
      r_lat = JFloat la,
      r_lon = JFloat lo,
      r_distance_km = JNull,
      r_opening_hours = tag_value (tags_of e) ''opening_hours'',
      r_phone = or_tags (tags_of e) [''phone'', ''contact:phone''],
      r_website = or_tags (tags_of e) [''website'', ''contact:website''],
      r_osm_url = ''https://www.openstreetmap.org/'' @ ident_text e\<rparr>"

subsection \<open>A fixture\<close>

text \<open>
  One geocoder answer and one Overpass answer, used to run the definitions: a node with an
  address, an unnamed way with a centroid, a second node with the name of the first, a
  relation without coordinates and a way whose name starts with a small letter.
\<close>

definition springfield_match :: json where
  "springfield_match =
     JObj [(''lat'', JStr ''39.7990''), (''lon'', JStr ''-89.6440''),
           (''display_name'', JStr ''Springfield, Illinois'')]"

definition clean_co :: json where
  "clean_co =
     JObj [(''type'', JStr ''node''), (''id'', JInt 12345),
           (''lat'', JFloat 1), (''lon'', JFloat 2),
           (''tags'', JObj [(''shop'', JStr ''laundry''), (''name'', JStr ''Clean Co''),
                            (''addr:housenumber'', JStr ''12''),
                            (''addr:street'', JStr ''Main St''),
                            (''addr:city'', JStr ''Springfield'')])]"

definition unnamed_way :: json where
  "unnamed_way =
     JObj [(''type'', JStr ''way''), (''id'', JInt 77),
           (''center'', JObj [(''lat'', JFloat 5), (''lon'', JFloat 6)]),
           (''tags'', JObj [(''amenity'', JStr ''laundrette'')])]"

definition second_clean_co :: json where
  "second_clean_co =
     JObj [(''type'', JStr ''node''), (''id'', JInt 3),
           (''lat'', JFloat 3), (''lon'', JFloat 4),
           (''tags'', JObj [(''amenity'', JStr ''laundry''), (''name'', JStr ''Clean Co'')])]"

definition bare_relation :: json where
  "bare_relation = JObj [(''type'', JStr ''relation''), (''id'', JInt 9)]"

definition small_letter_way :: json where
  "small_letter_way =
     JObj [(''type'', JStr ''way''), (''id'', JInt 8),
           (''center'', JObj [(''lat'', JFloat 7), (''lon'', JFloat 8)]),
           (''tags'', JObj [(''shop'', JStr ''laundry''), (''name'', JStr ''alpha wash'')])]"

definition demo_elements :: "json list" where
  "demo_elements = [clean_co, unnamed_way, second_clean_co, bare_relation, small_letter_way]"

definition demo_world :: world where
  "demo_world =
     \<lparr>nominatim = (\<lambda>q. Inr \<lparr>status_code = 200, body = Some (JArr [springfield_match])\<rparr>),
      overpass = (\<lambda>q. Inr \<lparr>status_code = 200,
                               body = Some (JObj [(''elements'', JArr demo_elements)])\<rparr>)\<rparr>"

definition demo_center :: geo_center where
  "demo_center =
     \<lparr>c_lat = 39799 / 1000, c_lon = - (89644 / 1000),
      c_display_name = JStr ''Springfield, Illinois''\<rparr>"

definition place_of ::
  "string \<Rightarrow> string \<Rightarrow> json \<Rightarrow> real \<Rightarrow> real \<Rightarrow> place" where
  "place_of ident name address la lo =
     \<lparr>r_id = ident, r_name = JStr name, r_address = address,
      r_lat = JFloat la, r_lon = JFloat lo, r_distance_km = JNull,
      r_opening_hours = JNull, r_phone = JNull, r_website = JNull,
      r_osm_url = ''https://www.openstreetmap.org/'' @ ident\<rparr>"

definition clean_co_place :: place where
  "clean_co_place = place_of ''node/12345'' ''Clean Co'' (JStr ''12 Main St, Springfield'') 1 2"

definition unnamed_place :: place where
  "unnamed_place = place_of ''way/77'' ''Laundromat'' JNull 5 6"

definition second_place :: place where
  "second_place = place_of ''node/3'' ''Clean Co'' JNull 3 4"

definition small_letter_place :: place where
  "small_letter_place = place_of ''way/8'' ''alpha wash'' JNull 7 8"

definition demo_response :: search_response where
  "demo_response =
     \<lparr>center = demo_center, count = 3,
      results = [clean_co_place, second_place, unnamed_place]\<rparr>"

definition demo_response_all :: search_response where
  "demo_response_all =
     \<lparr>center = demo_center, count = 4,
      results = [clean_co_place, second_place, unnamed_place, small_letter_place]\<rparr>"

text \<open>A geocoder that finds nothing, and one whose first match has a malformed latitude.\<close>

definition no_match_world :: world where
  "no_match_world =
     \<lparr>nominatim = (\<lambda>q. Inr \<lparr>status_code = 200, body = Some (JArr [])\<rparr>),
      overpass = (\<lambda>q. Inr \<lparr>status_code = 200,
                               body = Some (JObj [(''elements'', JArr demo_elements)])\<rparr>)\<rparr>"



text \<open>The first element of the fixture and an untagged area, as raw elements.\<close>

definition clean_co_raw :: raw_element where
  "clean_co_raw =
     \<lparr>e_type = Some ''node'', e_id = Some 12345, e_lat = Some 1, e_lon = Some 2,
      e_center = None,
      e_tags = Some [(''shop'', ''laundry''), (''name'', ''Clean Co''),
                     (''addr:housenumber'', ''12''), (''addr:street'', ''Main St''),
                     (''addr:city'', ''Springfield'')]\<rparr>"

definition untagged_area :: raw_element where
  "untagged_area =
     \<lparr>e_type = Some ''relation'', e_id = Some 42, e_lat = None, e_lon = None,
      e_center = Some (Some 5, Some 6), e_tags = None\<rparr>"

definition untagged_place :: place where
  "untagged_place = place_of ''relation/42'' ''Laundromat'' JNull 5 6"

text \<open>Two elements outside that description: \<^verbatim>\<open>"tags": null\<close>, and a postcode that is a number.\<close>

definition null_tags_node :: json where
  "null_tags_node =
     JObj [(''type'', JStr ''node''), (''id'', JInt 1),
           (''lat'', JFloat 1), (''lon'', JFloat 2), (''tags'', JNull)]"

definition numeric_postcode_way :: json where
  "numeric_postcode_way =
     JObj [(''type'', JStr ''way''), (''id'', JInt 2),
           (''center'', JObj [(''lat'', JFloat 1), (''lon'', JFloat 2)]),
           (''tags'', JObj [(''addr:postcode'', JInt 62701)])]"

section \<open>Properties\<close>

subsection \<open>Results and exceptions\<close>

lemma bind_res_Inl [simp]: "bind_res (Inl e) f = Inl e"
  by (simp add: bind_res_def)

lemma bind_res_Inr [simp]: "bind_res (Inr x) f = f x"
  by (simp add: bind_res_def)

lemma bind_res_eq_Inr: "bind_res m f = Inr y \<longleftrightarrow> (\<exists>x. m = Inr x \<and> f x = Inr y)"
  by (cases m) simp_all

lemma bind_res_InrE:
  assumes "bind_res m f = Inr y"
  obtains x where "m = Inr x" and "f x = Inr y"
  using assms by (cases m) simp_all

lemma truthy_py_or: "truthy y \<Longrightarrow> truthy (py_or x y)"
  by (simp add: py_or_def)

subsection \<open>The fixture, evaluated\<close>

lemma show_int_small:
  "show_int 12345 = ''12345''" "show_int 77 = ''77''" "show_int 3 = ''3''"
  "show_int 9 = ''9''" "show_int 8 = ''8''"
  by (simp_all add: show_int_def show_nat.simps digit_char_def)

lemma py_float_str_demo:
  "py_float_str ''39.7990'' = Inr (39799 / 1000)"
  "py_float_str ''-89.6440'' = Inr (- (89644 / 1000))"
  "py_float_str ''39..7990'' = Inl ValueError"
  by (simp_all add: py_float_str_def is_digit_def digits_val_def Let_def)

lemma demo_geocode: "geocode_location (nominatim demo_world q) = Inr (Some demo_center)"
  by (simp add: geocode_location_def demo_world_def springfield_match_def demo_center_def
        py_get_def py_get_default_def py_float_str_demo)

lemma normalize_clean_co: "normalize clean_co = Inr (Some clean_co_place)"
  by (simp add: normalize_def clean_co_def clean_co_place_def place_of_def py_get_def
        py_get_default_def py_or_def build_address_def py_join_def show_int_small Let_def)

lemma normalize_unnamed_way: "normalize unnamed_way = Inr (Some unnamed_place)"
  by (simp add: normalize_def unnamed_way_def unnamed_place_def place_of_def py_get_def
        py_get_default_def py_or_def build_address_def py_join_def show_int_small Let_def)

lemma normalize_second_clean_co: "normalize second_clean_co = Inr (Some second_place)"
  by (simp add: normalize_def second_clean_co_def second_place_def place_of_def py_get_def
        py_get_default_def py_or_def build_address_def py_join_def show_int_small Let_def)

lemma normalize_bare_relation: "normalize bare_relation = Inr None"
  by (simp add: normalize_def bare_relation_def py_get_def py_get_default_def py_or_def Let_def)

lemma normalize_small_letter_way: "normalize small_letter_way = Inr (Some small_letter_place)"
  by (simp add: normalize_def small_letter_way_def small_letter_place_def place_of_def py_get_def
        py_get_default_def py_or_def build_address_def py_join_def show_int_small Let_def)

lemma demo_normalize_all:
  "normalize_all demo_elements =
     Inr [clean_co_place, unnamed_place, second_place, small_letter_place]"
  by (simp add: demo_elements_def normalize_clean_co normalize_unnamed_way
        normalize_second_clean_co normalize_bare_relation normalize_small_letter_way)

lemma demo_sort_keys:
  "sort_key_of clean_co_place = JStr ''Clean Co''"
  "sort_key_of unnamed_place = JStr ''Laundromat''"
  "sort_key_of second_place = JStr ''Clean Co''"
  "sort_key_of small_letter_place = JStr ''alpha wash''"
  by (simp_all add: sort_key_of_def py_or_def place_of_def clean_co_place_def unnamed_place_def
        second_place_def small_letter_place_def)

lemma demo_sorted:
  "py_sorted [clean_co_place, unnamed_place, second_place, small_letter_place] =
     Inr [clean_co_place, second_place, unnamed_place, small_letter_place]"
  by (simp add: demo_sort_keys)

lemma demo_search:
  "search_laundromats demo_world q 5 3 =
     ([GeocodeCall q, OverpassCall (overpass_query demo_center 5 3)], Inr demo_response)"
proof -
  have "overpass demo_world (overpass_query demo_center 5 3) =
          Inr \<lparr>status_code = 200, body = Some (JObj [(''elements'', JArr demo_elements)])\<rparr>"
    by (simp add: demo_world_def)
  then show ?thesis
    by (simp add: search_laundromats_def demo_geocode Let_def py_get_default_def
          demo_normalize_all demo_sorted py_slice_to_def demo_response_def
          del: py_sorted.simps normalize_all.simps)
qed

lemma demo_api_search:
  "api_search demo_world q 5 3 =
     ([GeocodeCall q, OverpassCall (overpass_query demo_center 5 3)], Inr demo_response)"
  by (simp add: api_search_def demo_search)

lemma demo_search_all:
  "search_laundromats demo_world q 5 50 =
     ([GeocodeCall q, OverpassCall (overpass_query demo_center 5 50)], Inr demo_response_all)"
proof -
  have "overpass demo_world (overpass_query demo_center 5 50) =
          Inr \<lparr>status_code = 200, body = Some (JObj [(''elements'', JArr demo_elements)])\<rparr>"
    by (simp add: demo_world_def)
  then show ?thesis
    by (simp add: search_laundromats_def demo_geocode Let_def py_get_default_def
          demo_normalize_all demo_sorted py_slice_to_def demo_response_all_def
          del: py_sorted.simps normalize_all.simps)
qed


lemma demo_names:
  "r_name clean_co_place = JStr ''Clean Co''"
  "r_name unnamed_place = JStr ''Laundromat''"
  "r_name second_place = JStr ''Clean Co''"
  "r_name small_letter_place = JStr ''alpha wash''"
  by (simp_all add: place_of_def clean_co_place_def unnamed_place_def second_place_def
        small_letter_place_def)

subsection \<open>What a returned response is made of\<close>

lemma normalize_Some:
  assumes "normalize el = Inr (Some p)"
  shows "r_lat p \<noteq> JNull \<and> r_lon p \<noteq> JNull \<and> r_distance_km p = JNull \<and> truthy (r_name p)"
  using assms unfolding normalize_def Let_def
  apply (elim bind_res_InrE)
  apply (simp split: prod.splits if_splits)
   apply (elim bind_res_InrE)
   apply (auto simp: truthy_py_or)[1]
  apply (elim bind_res_InrE)
  apply (auto simp: truthy_py_or)[1]
  done

lemma normalize_all_set:
  "normalize_all els = Inr ps \<Longrightarrow> p \<in> set ps \<Longrightarrow> \<exists>el \<in> set els. normalize el = Inr (Some p)"
proof (induction els arbitrary: ps)
  case Nil
  then show ?case by simp
next
  case (Cons el els)
  then show ?case
    by (auto simp: bind_res_eq_Inr split: option.splits)
qed

lemma py_insort_set: "py_insort x ys = Inr zs \<Longrightarrow> set zs = insert x (set ys)"
  by (induction ys arbitrary: zs) (auto simp: bind_res_eq_Inr split: if_splits)

lemma py_insort_length: "py_insort x ys = Inr zs \<Longrightarrow> length zs = Suc (length ys)"
  by (induction ys arbitrary: zs) (auto simp: bind_res_eq_Inr split: if_splits)

lemma py_sorted_set: "py_sorted xs = Inr ys \<Longrightarrow> set ys = set xs"
  by (induction xs arbitrary: ys) (auto simp: bind_res_eq_Inr dest: py_insort_set)

lemma py_sorted_length: "py_sorted xs = Inr ys \<Longrightarrow> length ys = length xs"
  by (induction xs arbitrary: ys) (auto simp: bind_res_eq_Inr dest: py_insort_length)

lemma set_py_slice_to: "set (py_slice_to n xs) \<subseteq> set xs"
  by (auto simp: py_slice_to_def dest: in_set_takeD)

lemma length_py_slice_to: "0 \<le> n \<Longrightarrow> length (py_slice_to n xs) \<le> nat n"
  by (simp add: py_slice_to_def)

lemma search_laundromats_returns:
  assumes "search_laundromats w query radius_km max_results = (cs, Inr resp)"
  obtains c r data elements els found ordered where
    "geocode_location (nominatim w query) = Inr (Some c)"
    "cs = [GeocodeCall query, OverpassCall (overpass_query c radius_km max_results)]"
    "overpass w (overpass_query c radius_km max_results) = Inr r"
    "status_code r = 200"
    "body r = Some data"
    "py_get_default data ''elements'' (JArr []) = Inr elements"
    "py_iter elements = Inr els"
    "normalize_all els = Inr found"
    "py_sorted found = Inr ordered"
    "resp = \<lparr>center = c, count = length (py_slice_to max_results ordered),
             results = py_slice_to max_results ordered\<rparr>"
  using assms
  by (auto simp: search_laundromats_def bind_res_eq_Inr Let_def
           split: sum.splits option.splits if_splits)

text \<open>A response of the route is a response of the function, with the parameters in bounds.\<close>

lemma api_search_returns:
  assumes "api_search w query radius_km max_results = (cs, Inr resp)"
  shows "search_laundromats w query radius_km max_results = (cs, Inr resp)"
    and "1 \<le> max_results" and "max_results \<le> 100"
    and "1 / 2 \<le> radius_km" and "radius_km \<le> 50"
  using assms by (auto simp: api_search_def split: if_splits)

lemma result_is_normalized:
  assumes "search_laundromats w query radius_km max_results = (cs, Inr resp)"
    and "p \<in> set (results resp)"
  shows "\<exists>el. normalize el = Inr (Some p)"
proof -
  from assms(1) obtain els found ordered where
    found: "normalize_all els = Inr found" and
    ordered: "py_sorted found = Inr ordered" and
    resp: "results resp = py_slice_to max_results ordered"
    by (elim search_laundromats_returns) simp
  from assms(2) resp have "p \<in> set ordered"
    using set_py_slice_to by fastforce
  with ordered have "p \<in> set found"
    by (simp add: py_sorted_set)
  with found show ?thesis
    using normalize_all_set by blast
qed

subsection \<open>Claims about the response\<close>

text \<open>
  C1. Every result of a returned response has a latitude and a longitude that are not
  null, and a null \<open>distance_km\<close>: an element without coordinates never reaches the
  output. The statement is about the function; by \<open>api_search_returns\<close> every response of
  the route is one of the function.
\<close>

theorem results_have_coordinates:
  assumes "search_laundromats w query radius_km max_results = (cs, Inr resp)"
    and "p \<in> set (results resp)"
  shows "r_lat p \<noteq> JNull \<and> r_lon p \<noteq> JNull \<and> r_distance_km p = JNull"
proof -
  from assms obtain el where "normalize el = Inr (Some p)"
    using result_is_normalized by blast
  then show ?thesis
    using normalize_Some by blast
qed

theorem results_have_coordinates_witness:
  "search_laundromats demo_world ''Springfield'' 5 3 =
     ([GeocodeCall ''Springfield'', OverpassCall (overpass_query demo_center 5 3)],
      Inr demo_response)
   \<and> unnamed_place \<in> set (results demo_response)
   \<and> r_lat unnamed_place = JFloat 5 \<and> r_lon unnamed_place = JFloat 6
   \<and> r_lat unnamed_place \<noteq> JNull \<and> r_lon unnamed_place \<noteq> JNull
   \<and> r_distance_km unnamed_place = JNull"
proof -
  have run: "search_laundromats demo_world ''Springfield'' 5 3 =
     ([GeocodeCall ''Springfield'', OverpassCall (overpass_query demo_center 5 3)],
      Inr demo_response)"
    by (rule demo_search)
  have mem: "unnamed_place \<in> set (results demo_response)"
    by (simp add: demo_response_def)
  have vals: "r_lat unnamed_place = JFloat 5 \<and> r_lon unnamed_place = JFloat 6"
    by (simp add: unnamed_place_def place_of_def)
  from results_have_coordinates [OF run mem] run mem vals show ?thesis
    by simp
qed

text \<open>
  C3. A response of the route has at most \<open>max_results\<close> results, and its \<open>count\<close> is the
  length of the list it returns, that is of the sorted and truncated list. The bound uses
  that the route only runs the function with \<open>max_results\<close> between 1 and 100.
\<close>

theorem response_count_and_cap:
  assumes "api_search w query radius_km max_results = (cs, Inr resp)"
  shows "int (length (results resp)) \<le> max_results \<and> count resp = length (results resp)"
proof -
  have run: "search_laundromats w query radius_km max_results = (cs, Inr resp)"
    and pos: "1 \<le> max_results"
    using api_search_returns [OF assms] by simp_all
  from run obtain ordered where
    resp: "resp = \<lparr>center = center resp, count = length (py_slice_to max_results ordered),
                   results = py_slice_to max_results ordered\<rparr>"
    by (elim search_laundromats_returns) simp
  have "length (py_slice_to max_results ordered) \<le> nat max_results"
    using pos by (simp add: length_py_slice_to)
  with pos have "int (length (py_slice_to max_results ordered)) \<le> max_results"
    by linarith
  with resp show ?thesis
    by (metis search_response.select_convs(2,3))
qed

theorem response_count_and_cap_witness:
  "api_search demo_world ''Springfield'' 5 3 =
     ([GeocodeCall ''Springfield'', OverpassCall (overpass_query demo_center 5 3)],
      Inr demo_response)
   \<and> length (results demo_response) = 3 \<and> count demo_response = 3
   \<and> int (length (results demo_response)) \<le> 3
   \<and> count demo_response = length (results demo_response)"
proof -
  have run: "api_search demo_world ''Springfield'' 5 3 =
     ([GeocodeCall ''Springfield'', OverpassCall (overpass_query demo_center 5 3)],
      Inr demo_response)"
    by (rule demo_api_search)
  have "length (results demo_response) = 3 \<and> count demo_response = 3"
    by (simp add: demo_response_def)
  with response_count_and_cap [OF run] run show ?thesis
    by simp
qed

subsection \<open>Claims about the geocoder\<close>

lemma geocode_not_found_status:
  "status_code r \<noteq> 200 \<Longrightarrow> geocode_location (Inr r) = Inr None"
  by (simp add: geocode_location_def)

lemma geocode_not_found_no_match:
  "status_code r = 200 \<Longrightarrow> body r = Some (JArr []) \<Longrightarrow> geocode_location (Inr r) = Inr None"
  by (simp add: geocode_location_def)

text \<open>
  C5. When the geocoder returns \<^verbatim>\<open>None\<close> for the query (as it does for a status other than
  200 and for an empty list of matches, lemmas \<open>geocode_not_found_status\<close> and
  \<open>geocode_not_found_no_match\<close>), the search raises the 404 exception, and the only upstream
  call it has made is the geocoding one: Overpass is not queried. The route behaves the same
  for parameters in bounds.
\<close>

theorem not_found_is_404_without_overpass:
  assumes "geocode_location (nominatim w query) = Inr None"
  shows "search_laundromats w query radius_km max_results =
           ([GeocodeCall query],
            Inl (HTTPException 404 ''Location not found. Try a different search.''))
         \<and> (1 / 2 \<le> radius_km \<and> radius_km \<le> 50 \<and> 1 \<le> max_results \<and> max_results \<le> 100 \<longrightarrow>
              api_search w query radius_km max_results =
                ([GeocodeCall query],
                 Inl (HTTPException 404 ''Location not found. Try a different search.'')))"
  using assms by (simp add: search_laundromats_def api_search_def not_found_def)

theorem not_found_is_404_without_overpass_witness:
  "geocode_location (nominatim no_match_world ''Qwxzplorp123'') = Inr None
   \<and> search_laundromats no_match_world ''Qwxzplorp123'' 5 50 =
       ([GeocodeCall ''Qwxzplorp123''],
        Inl (HTTPException 404 ''Location not found. Try a different search.''))
   \<and> api_search no_match_world ''Qwxzplorp123'' 5 50 =
       ([GeocodeCall ''Qwxzplorp123''],
        Inl (HTTPException 404 ''Location not found. Try a different search.''))"
proof -
  have none: "geocode_location (nominatim no_match_world ''Qwxzplorp123'') = Inr None"
    by (simp add: no_match_world_def geocode_location_def)
  from not_found_is_404_without_overpass [OF none, of 5 50] none show ?thesis
    by simp
qed




subsection \<open>Claims about the Overpass query\<close>






subsection \<open>The sort\<close>

lemma py_lt_asym: "py_lt a b = Inr True \<Longrightarrow> py_lt b a = Inr False"
  by (cases a; cases b) (auto split: option.splits)


lemma py_insort_hd:
  "py_insort x ys = Inr zs \<Longrightarrow> zs \<noteq> [] \<and> (hd zs = x \<or> ys \<noteq> [] \<and> hd zs = hd ys)"
  by (cases ys) (auto simp: bind_res_eq_Inr split: if_splits)

lemma py_insort_in_order:
  "successively in_order ys \<Longrightarrow> py_insort x ys = Inr zs \<Longrightarrow> successively in_order zs"
proof (induction ys arbitrary: zs)
  case Nil
  then show ?case by auto
next
  case (Cons y ys)
  from Cons.prems(2) obtain smaller where
    lt: "py_lt (sort_key_of y) (sort_key_of x) = Inr smaller" and
    rest: "(if smaller then bind_res (py_insort x ys) (\<lambda>zs. Inr (y # zs))
            else Inr (x # y # ys)) = Inr zs"
    by (auto simp: bind_res_eq_Inr)
  show ?case
  proof (cases smaller)
    case False
    with lt rest Cons.prems(1) show ?thesis
      by (auto simp: in_order_def)
  next
    case True
    with rest obtain zs' where ins: "py_insort x ys = Inr zs'" and zs: "zs = y # zs'"
      by (auto simp: bind_res_eq_Inr)
    from Cons.prems(1) have "successively in_order ys"
      by (auto simp: successively_Cons)
    with Cons.IH ins have tail: "successively in_order zs'"
      by blast
    from py_insort_hd [OF ins] have ne: "zs' \<noteq> []"
      and hd: "hd zs' = x \<or> ys \<noteq> [] \<and> hd zs' = hd ys"
      by simp_all
    have "in_order y (hd zs')"
    proof (cases "hd zs' = x")
      case True
      with lt \<open>smaller\<close> show ?thesis
        by (simp add: in_order_def py_lt_asym)
    next
      case False
      with hd have "ys \<noteq> []" "hd zs' = hd ys" by simp_all
      with Cons.prems(1) show ?thesis
        by (auto simp: successively_Cons)
    qed
    with tail zs show ?thesis
      by (simp add: successively_Cons)
  qed
qed

lemma py_sorted_in_order: "py_sorted xs = Inr ys \<Longrightarrow> successively in_order ys"
proof (induction xs arbitrary: ys)
  case Nil
  then show ?case by simp
next
  case (Cons x xs)
  then show ?case
    by (auto simp: bind_res_eq_Inr intro: py_insort_in_order)
qed

lemma successively_take: "successively P xs \<Longrightarrow> successively P (take n xs)"
proof -
  assume "successively P xs"
  then have "successively P (take n xs @ drop n xs)" by simp
  then show ?thesis
    unfolding successively_append_iff by blast
qed

lemma successively_nth:
  "successively P xs \<Longrightarrow> Suc i < length xs \<Longrightarrow> P (xs ! i) (xs ! Suc i)"
proof (induction xs arbitrary: i)
  case Nil
  then show ?case by simp
next
  case (Cons x xs)
  then show ?case
    by (cases i; cases xs) auto
qed

lemma py_slice_to_take: "\<exists>k. py_slice_to n xs = take k xs"
  by (auto simp: py_slice_to_def)



text \<open>The name of a place is never falsy, so its sort key is the name.\<close>

lemma sort_key_is_name: "normalize el = Inr (Some p) \<Longrightarrow> sort_key_of p = r_name p"
  using normalize_Some [of el p] by (simp add: sort_key_of_def py_or_def)



subsection \<open>Claims about the order of the results\<close>

text \<open>
  C4. In a returned response any two neighbouring results \<open>a\<close>, \<open>b\<close> are in the order of
  their names: Python's \<^verbatim>\<open>b.name < a.name\<close> is \<^verbatim>\<open>False\<close>, and when the two names are strs,
  \<open>a.name \<le> b.name\<close> in the lexicographic order of their characters, capital letters
  before small ones.
\<close>

theorem results_sorted_by_name:
  assumes "search_laundromats w query radius_km max_results = (cs, Inr resp)"
    and "Suc i < length (results resp)"
  shows "py_lt (r_name (results resp ! Suc i)) (r_name (results resp ! i)) = Inr False
         \<and> (\<forall>s t. r_name (results resp ! i) = JStr s \<and> r_name (results resp ! Suc i) = JStr t
                \<longrightarrow> s \<le> t)"
proof -
  from assms(1) obtain found ordered where
    sorted: "py_sorted found = Inr ordered" and
    resp: "results resp = py_slice_to max_results ordered"
    by (elim search_laundromats_returns) simp
  from sorted have "successively in_order ordered"
    by (rule py_sorted_in_order)
  moreover obtain k where "results resp = take k ordered"
    using resp py_slice_to_take by metis
  ultimately have succ: "successively in_order (results resp)"
    by (simp add: successively_take)
  have io: "in_order (results resp ! i) (results resp ! Suc i)"
    using succ assms(2) by (rule successively_nth)
  have "results resp ! i \<in> set (results resp)" "results resp ! Suc i \<in> set (results resp)"
    using assms(2) by simp_all
  then obtain el el' where "normalize el = Inr (Some (results resp ! i))"
    "normalize el' = Inr (Some (results resp ! Suc i))"
    using result_is_normalized [OF assms(1)] by blast
  then have keys: "sort_key_of (results resp ! i) = r_name (results resp ! i)"
    "sort_key_of (results resp ! Suc i) = r_name (results resp ! Suc i)"
    by (simp_all add: sort_key_is_name)
  from io keys have lt: "py_lt (r_name (results resp ! Suc i)) (r_name (results resp ! i)) = Inr False"
    by (simp add: in_order_def)
  then show ?thesis
    by auto
qed

theorem results_sorted_by_name_witness:
  "search_laundromats demo_world ''Springfield'' 5 50 =
     ([GeocodeCall ''Springfield'', OverpassCall (overpass_query demo_center 5 50)],
      Inr demo_response_all)
   \<and> Suc 2 < length (results demo_response_all)
   \<and> r_name (results demo_response_all ! 2) = JStr ''Laundromat''
   \<and> r_name (results demo_response_all ! Suc 2) = JStr ''alpha wash''
   \<and> py_lt (JStr ''alpha wash'') (JStr ''Laundromat'') = Inr False
   \<and> (''Laundromat'' :: string) \<le> ''alpha wash''"
proof -
  have run: "search_laundromats demo_world ''Springfield'' 5 50 =
     ([GeocodeCall ''Springfield'', OverpassCall (overpass_query demo_center 5 50)],
      Inr demo_response_all)"
    by (rule demo_search_all)
  have len: "Suc 2 < length (results demo_response_all)"
    by (simp add: demo_response_all_def)
  have names: "r_name (results demo_response_all ! 2) = JStr ''Laundromat''"
    "r_name (results demo_response_all ! Suc 2) = JStr ''alpha wash''"
    by (simp_all add: demo_response_all_def demo_names)
  from results_sorted_by_name [OF run len] run len names show ?thesis
    by simp
qed



subsection \<open>Normalising a raw element\<close>

lemma py_get_tags: "py_get (tags_json kvs) k = Inr (tag_value kvs k)"
proof -
  have "map_of (map (\<lambda>(k, v). (k, JStr v)) kvs) k = map_option JStr (map_of kvs k)"
    by (simp add: map_of_map)
  then show ?thesis
    by (simp add: py_get_def py_get_default_def tags_json_def tag_value_def split: option.splits)
qed

lemma tag_value_cases:
  obtains (absent) "tag kvs k = None" "\<not> truthy (tag_value kvs k)"
  | (present) v where "tag kvs k = Some v" "v \<noteq> []" "tag_value kvs k = JStr v"
proof (cases "map_of kvs k")
  case None
  then show ?thesis
    using absent by (simp add: tag_def tag_value_def)
next
  case (Some v)
  then show ?thesis
    using absent [unfolded tag_def tag_value_def] present [of v, unfolded tag_def tag_value_def]
    by (cases "v = []") simp_all
qed

lemma get_first_tags: "get_first (tags_json kvs) ks = Inr (or_tags kvs ks)"
  by (induction kvs ks rule: or_tags.induct) (simp_all add: py_get_tags)

lemma or_tags_cases:
  obtains (absent) "first_tag kvs ks = None" "\<not> truthy (or_tags kvs ks)"
  | (present) v where "first_tag kvs ks = Some v" "v \<noteq> []" "or_tags kvs ks = JStr v"
proof -
  have "(first_tag kvs ks = None \<and> \<not> truthy (or_tags kvs ks))
        \<or> (\<exists>v. first_tag kvs ks = Some v \<and> v \<noteq> [] \<and> or_tags kvs ks = JStr v)"
  proof (induction kvs ks rule: or_tags.induct)
    case (1 tags)
    then show ?case by (simp add: first_tag_def List.map_filter_simps)
  next
    case (2 tags k)
    then show ?case
      by (cases rule: tag_value_cases [of tags k])
         (simp_all add: first_tag_def List.map_filter_simps)
  next
    case (3 tags k k' ks)
    then show ?case
      by (cases rule: tag_value_cases [of tags k])
         (simp_all add: first_tag_def List.map_filter_simps)
  qed
  then show ?thesis
    using absent present by blast
qed


lemma join_strs_nonempty: "x \<noteq> [] \<Longrightarrow> join_strs sep (x # xs) \<noteq> []"
  by (cases xs) simp_all

lemma py_join_strs: "py_join sep (map JStr ss) = Inr (join_strs sep ss)"
proof -
  have "strs_of (map JStr ss) = Inr ss"
    by (induction ss) simp_all
  then show ?thesis
    by (simp add: py_join_def)
qed

lemma street_part:
  "(if truthy (tag_value kvs ''addr:street'')
    then bind_res (if truthy (tag_value kvs ''addr:housenumber'')
                   then py_add_str (tag_value kvs ''addr:housenumber'') '' '' else Inr [])
           (\<lambda>pre. bind_res (py_str (tag_value kvs ''addr:street'')) (\<lambda>st. Inr [JStr (pre @ st)]))
    else Inr []) = Inr (map JStr (street_line kvs))"
  by (cases rule: tag_value_cases [of kvs "''addr:street''"];
      cases rule: tag_value_cases [of kvs "''addr:housenumber''"])
     (simp_all add: street_line_def)

lemma locality_part:
  "py_join '', '' (filter truthy [or_tags kvs [''addr:city'', ''addr:town'', ''addr:village''],
                                or_tags kvs [''addr:state'', ''addr:province'']])
   = Inr (case locality_line kvs of [] \<Rightarrow> [] | l # ls \<Rightarrow> l)"
  by (cases rule: or_tags_cases [of kvs "[''addr:city'', ''addr:town'', ''addr:village'']"];
      cases rule: or_tags_cases [of kvs "[''addr:state'', ''addr:province'']"])
     (simp_all add: locality_line_def py_join_def List.map_filter_simps del: or_tags.simps)

lemma locality_line_cases:
  obtains (none) "locality_line kvs = []" | (some) l where "locality_line kvs = [l]" "l \<noteq> []"
  by (cases rule: or_tags_cases [of kvs "[''addr:city'', ''addr:town'', ''addr:village'']"];
      cases rule: or_tags_cases [of kvs "[''addr:state'', ''addr:province'']"])
     (simp_all add: locality_line_def List.map_filter_simps join_strs_nonempty del: or_tags.simps)

lemma build_address_tags:
  "build_address (tags_json kvs) =
     Inr (case segments kvs of [] \<Rightarrow> JNull | s # ss \<Rightarrow> JStr (join_strs '', '' (s # ss)))"
proof -
  let ?post = "tag_value kvs ''addr:postcode''"
  have post: "(if truthy ?post then [?post] else []) = map JStr (postcode_segment kvs)"
    by (cases rule: tag_value_cases [of kvs "''addr:postcode''"])
       (simp_all add: postcode_segment_def)
  have loc: "(if (case locality_line kvs of [] \<Rightarrow> [] | l # ls \<Rightarrow> l) \<noteq> []
              then [JStr (case locality_line kvs of [] \<Rightarrow> [] | l # ls \<Rightarrow> l)] else [])
             = map JStr (locality_line kvs)"
    by (cases rule: locality_line_cases [of kvs]) simp_all
  have parts: "(let parts2 = (if (case locality_line kvs of [] \<Rightarrow> [] | l # ls \<Rightarrow> l) \<noteq> []
                  then map JStr (street_line kvs) @ [JStr (case locality_line kvs of [] \<Rightarrow> [] | l # ls \<Rightarrow> l)]
                  else map JStr (street_line kvs));
                   parts3 = (if truthy ?post then parts2 @ [?post] else parts2)
               in if parts3 \<noteq> [] then bind_res (py_join '', '' parts3) (\<lambda>a. Inr (JStr a))
                  else Inr JNull)
        = Inr (case segments kvs of [] \<Rightarrow> JNull | s # ss \<Rightarrow> JStr (join_strs '', '' (s # ss)))"
  proof -
    have "(if (case locality_line kvs of [] \<Rightarrow> [] | l # ls \<Rightarrow> l) \<noteq> []
                  then map JStr (street_line kvs) @ [JStr (case locality_line kvs of [] \<Rightarrow> [] | l # ls \<Rightarrow> l)]
                  else map JStr (street_line kvs))
          = map JStr (street_line kvs @ locality_line kvs)"
      using loc by (simp split: if_splits)
    moreover have "(if truthy ?post then map JStr (street_line kvs @ locality_line kvs) @ [?post]
                    else map JStr (street_line kvs @ locality_line kvs))
          = map JStr (segments kvs)"
      using post by (simp add: segments_def split: if_splits)
    ultimately have "(let parts2 = (if (case locality_line kvs of [] \<Rightarrow> [] | l # ls \<Rightarrow> l) \<noteq> []
                  then map JStr (street_line kvs) @ [JStr (case locality_line kvs of [] \<Rightarrow> [] | l # ls \<Rightarrow> l)]
                  else map JStr (street_line kvs));
                   parts3 = (if truthy ?post then parts2 @ [?post] else parts2)
               in if parts3 \<noteq> [] then bind_res (py_join '', '' parts3) (\<lambda>a. Inr (JStr a))
                  else Inr JNull)
        = (if map JStr (segments kvs) \<noteq> []
           then bind_res (py_join '', '' (map JStr (segments kvs))) (\<lambda>a. Inr (JStr a))
           else Inr JNull)"
      by (simp only: Let_def)
    also have "\<dots> = Inr (case segments kvs of [] \<Rightarrow> JNull | s # ss \<Rightarrow> JStr (join_strs '', '' (s # ss)))"
      unfolding py_join_strs by (cases "segments kvs") simp_all
    finally show ?thesis .
  qed
  show ?thesis
    unfolding build_address_def
    by (simp only: py_get_tags get_first_tags bind_res_Inr street_part locality_part parts)
qed


lemma segments_nonempty: "s \<in> set (segments kvs) \<Longrightarrow> s \<noteq> []"
proof -
  have "s \<in> set (street_line kvs) \<Longrightarrow> s \<noteq> []"
    by (cases rule: tag_value_cases [of kvs "''addr:street''"])
       (auto simp: street_line_def)
  moreover have "s \<in> set (locality_line kvs) \<Longrightarrow> s \<noteq> []"
    by (cases rule: locality_line_cases [of kvs]) auto
  moreover have "s \<in> set (postcode_segment kvs) \<Longrightarrow> s \<noteq> []"
    by (cases rule: tag_value_cases [of kvs "''addr:postcode''"])
       (auto simp: postcode_segment_def)
  ultimately show "s \<in> set (segments kvs) \<Longrightarrow> s \<noteq> []"
    by (auto simp: segments_def)
qed

lemma address_of_tags:
  "bind_res (build_address (tags_json kvs))
     (\<lambda>built. bind_res (if truthy built then Inr built
                             else Inr (tag_value kvs ''addr:full'')) f)
   = f (spec_address kvs)"
proof (cases "segments kvs")
  case Nil
  then show ?thesis
    by (simp add: build_address_tags py_get_tags spec_address_def tag_value_def)
next
  case (Cons s ss)
  then have "s \<noteq> []"
    using segments_nonempty [of s kvs] by simp
  then have "join_strs '', '' (s # ss) \<noteq> []"
    by (rule join_strs_nonempty)
  with Cons show ?thesis
    by (simp add: build_address_tags spec_address_def)
qed

lemma name_of_tags: "py_or (tag_value kvs ''name'') (JStr ''Laundromat'') = JStr (spec_name kvs)"
  by (cases rule: tag_value_cases [of kvs "''name''"]) (simp_all add: py_or_def spec_name_def)

lemma element_get:
  "py_get_default (element_json e) ''tags'' (JObj []) = Inr (tags_json (tags_of e))"
  "py_get (element_json e) ''type'' = Inr (case e_type e of None \<Rightarrow> JNull | Some t \<Rightarrow> JStr t)"
  "py_get (element_json e) ''id'' = Inr (case e_id e of None \<Rightarrow> JNull | Some i \<Rightarrow> JInt i)"
  "py_get (element_json e) ''lat'' = Inr (case e_lat e of None \<Rightarrow> JNull | Some x \<Rightarrow> JFloat x)"
  "py_get (element_json e) ''lon'' = Inr (case e_lon e of None \<Rightarrow> JNull | Some x \<Rightarrow> JFloat x)"
  "py_get (element_json e) ''center'' =
     Inr (case e_center e of None \<Rightarrow> JNull | Some c \<Rightarrow> center_json c)"
  by (simp_all add: element_json_def field_def py_get_def py_get_default_def tags_of_def
        tags_json_def split: option.splits)

lemma center_get:
  "py_get (py_or (case c of None \<Rightarrow> JNull | Some c \<Rightarrow> center_json c) (JObj [])) ''lat'' =
     Inr (case c of None \<Rightarrow> JNull
          | Some c \<Rightarrow> (case fst c of None \<Rightarrow> JNull | Some x \<Rightarrow> JFloat x))"
  "py_get (py_or (case c of None \<Rightarrow> JNull | Some c \<Rightarrow> center_json c) (JObj [])) ''lon'' =
     Inr (case c of None \<Rightarrow> JNull
          | Some c \<Rightarrow> (case snd c of None \<Rightarrow> JNull | Some x \<Rightarrow> JFloat x))"
  by (simp_all add: center_json_def field_def py_or_def py_get_def py_get_default_def
        split: option.splits)

lemma ident_texts:
  "bind_res (py_str (case e_type e of None \<Rightarrow> JNull | Some t \<Rightarrow> JStr t))
     (\<lambda>ty_text. bind_res (Inr (case e_id e of None \<Rightarrow> JNull | Some i \<Rightarrow> JInt i))
     (\<lambda>ident. bind_res (py_str ident) (\<lambda>id_text. f ty_text id_text)))
   = f (case e_type e of None \<Rightarrow> ''None'' | Some t \<Rightarrow> t)
       (case e_id e of None \<Rightarrow> ''None'' | Some i \<Rightarrow> show_int i)"
  by (simp split: option.splits)

text \<open>On a raw element the loop body never raises, and it computes the place of the rules.\<close>

lemma normalize_raw_element:
  "normalize (element_json e) =
     Inr (case spec_coordinates e of
            (Some la, Some lo) \<Rightarrow> Some (place_for e la lo)
          | _ \<Rightarrow> None)"
proof (cases "e_type e = Some ''node''")
  case True
  then show ?thesis
    unfolding normalize_def Let_def
    by (simp only: element_get py_get_tags get_first_tags bind_res_Inr name_of_tags)
       (simp add: spec_coordinates_def address_of_tags ident_texts [unfolded bind_res_Inr]
          place_for_def ident_text_def split: option.splits del: or_tags.simps)
next
  case False
  then have ty: "(case e_type e of None \<Rightarrow> JNull | Some t \<Rightarrow> JStr t) \<noteq> JStr ''node''"
    by (cases "e_type e") auto
  show ?thesis
    unfolding normalize_def Let_def
    apply (simp only: element_get py_get_tags get_first_tags bind_res_Inr name_of_tags ty
             if_False center_get)
    using False
    apply (simp add: spec_coordinates_def address_of_tags ident_texts [unfolded bind_res_Inr]
          place_for_def ident_text_def split: option.splits prod.splits del: or_tags.simps)
    done
qed

subsection \<open>Claims about normalisation\<close>

lemma clean_co_raw_json: "element_json clean_co_raw = clean_co"
  by (simp add: element_json_def clean_co_raw_def clean_co_def field_def tags_json_def)

lemma clean_co_rules:
  "spec_coordinates clean_co_raw = (Some 1, Some 2)"
  "spec_name (tags_of clean_co_raw) = ''Clean Co''"
  "segments (tags_of clean_co_raw) = [''12 Main St'', ''Springfield'']"
  "spec_address (tags_of clean_co_raw) = JStr ''12 Main St, Springfield''"
  by (simp_all add: spec_coordinates_def clean_co_raw_def tags_of_def spec_name_def tag_def
        spec_address_def segments_def street_line_def locality_line_def postcode_segment_def
        first_tag_def List.map_filter_simps)

text \<open>
  C6. For every raw element (string tags, each part optional) that has coordinates,
  normalisation produces a place whose name is the \<^verbatim>\<open>name\<close> tag when present and non-empty
  and \<^verbatim>\<open>Laundromat\<close> otherwise, and whose address is the one of the rules: the street line
  (house number, a blank, the street, when the street is present), the locality line (city,
  else town, else village; state, else province; joined by a comma and a blank), the
  postcode, the present segments joined by a comma and a blank; with no segment the
  address is the \<^verbatim>\<open>addr:full\<close> tag, or null when there is none, never an empty text built
  from segments. A tag counts as present when its value is not empty. The coordinates are
  the element's and \<open>distance_km\<close> is null. The element of the scenario normalises to the
  place of the scenario.
\<close>

theorem name_and_address_of_raw_element:
  "(spec_coordinates e = (Some la, Some lo) \<longrightarrow>
      (\<exists>p. normalize (element_json e) = Inr (Some p)
           \<and> r_name p = JStr (spec_name (tags_of e))
           \<and> r_address p = spec_address (tags_of e)
           \<and> r_lat p = JFloat la \<and> r_lon p = JFloat lo \<and> r_distance_km p = JNull))
   \<and> (normalize (element_json e) = Inr (Some q) \<longrightarrow>
        r_name q = JStr (spec_name (tags_of e)) \<and> r_address q = spec_address (tags_of e))
   \<and> (segments (tags_of e) \<noteq> [] \<longrightarrow>
        spec_address (tags_of e) = JStr (join_strs '', '' (segments (tags_of e)))
        \<and> join_strs '', '' (segments (tags_of e)) \<noteq> [])
   \<and> element_json clean_co_raw = clean_co
   \<and> normalize clean_co =
       Inr (Some
         \<lparr>r_id = ''node/12345'', r_name = JStr ''Clean Co'',
          r_address = JStr ''12 Main St, Springfield'',
          r_lat = JFloat 1, r_lon = JFloat 2, r_distance_km = JNull,
          r_opening_hours = JNull, r_phone = JNull, r_website = JNull,
          r_osm_url = ''https://www.openstreetmap.org/node/12345''\<rparr>)"
proof -
  have a: "spec_coordinates e = (Some la, Some lo) \<longrightarrow>
      (\<exists>p. normalize (element_json e) = Inr (Some p)
           \<and> r_name p = JStr (spec_name (tags_of e))
           \<and> r_address p = spec_address (tags_of e)
           \<and> r_lat p = JFloat la \<and> r_lon p = JFloat lo \<and> r_distance_km p = JNull)"
    by (simp add: normalize_raw_element place_for_def)
  have b: "normalize (element_json e) = Inr (Some q) \<longrightarrow>
        r_name q = JStr (spec_name (tags_of e)) \<and> r_address q = spec_address (tags_of e)"
    by (auto simp: normalize_raw_element place_for_def split: prod.splits option.splits)
  have c: "segments (tags_of e) \<noteq> [] \<longrightarrow>
        spec_address (tags_of e) = JStr (join_strs '', '' (segments (tags_of e)))
        \<and> join_strs '', '' (segments (tags_of e)) \<noteq> []"
  proof (cases "segments (tags_of e)")
    case Nil
    then show ?thesis by simp
  next
    case (Cons s ss)
    then have "s \<noteq> []"
      using segments_nonempty [of s "tags_of e"] by simp
    with Cons show ?thesis
      by (simp add: spec_address_def join_strs_nonempty)
  qed
  have d: "normalize clean_co =
       Inr (Some
         \<lparr>r_id = ''node/12345'', r_name = JStr ''Clean Co'',
          r_address = JStr ''12 Main St, Springfield'',
          r_lat = JFloat 1, r_lon = JFloat 2, r_distance_km = JNull,
          r_opening_hours = JNull, r_phone = JNull, r_website = JNull,
          r_osm_url = ''https://www.openstreetmap.org/node/12345''\<rparr>)"
    by (simp add: normalize_clean_co clean_co_place_def place_of_def)
  from a b c d clean_co_raw_json show ?thesis
    by (intro conjI)
qed

theorem name_and_address_of_raw_element_witness:
  "spec_coordinates clean_co_raw = (Some 1, Some 2)
   \<and> normalize (element_json clean_co_raw) = Inr (Some clean_co_place)
   \<and> segments (tags_of clean_co_raw) = [''12 Main St'', ''Springfield'']
   \<and> r_name clean_co_place = JStr (spec_name (tags_of clean_co_raw))
   \<and> r_address clean_co_place = spec_address (tags_of clean_co_raw)
   \<and> r_name clean_co_place = JStr ''Clean Co''
   \<and> r_address clean_co_place = JStr ''12 Main St, Springfield''"
proof -
  have run: "normalize (element_json clean_co_raw) = Inr (Some clean_co_place)"
    by (simp add: clean_co_raw_json normalize_clean_co)
  from name_and_address_of_raw_element [of clean_co_raw 1 2 clean_co_place] run clean_co_rules
  show ?thesis
    by simp
qed

end
